theory Spec2Isabelle
  imports Main
begin

section \<open>Python values and library functions used by the scripts\<close>

text \<open>
  The scripts are \<^verbatim>\<open>speechreco.py\<close> (microphone input), \<^verbatim>\<open>new full impli.py\<close>
  (audio file input, console output) and \<^verbatim>\<open>speaker detection.py\<close> (audio file input
  with diarization, Streamlit output). Python strings are modelled as \<^typ>\<open>string\<close>,
  a value that is either a string or \<^verbatim>\<open>None\<close> as \<^typ>\<open>string option\<close>, and Python's
  unbounded integers as \<^typ>\<open>int\<close>.
\<close>

text \<open>Truth value of an optional string in an \<^verbatim>\<open>if\<close>: \<^verbatim>\<open>None\<close> and \<^verbatim>\<open>""\<close> are false.\<close>

fun truthy :: "string option \<Rightarrow> bool" where
  "truthy None = False"
| "truthy (Some s) = (s \<noteq> [])"

text \<open>\<^verbatim>\<open>sep.join(xs)\<close>.\<close>

fun join :: "string \<Rightarrow> string list \<Rightarrow> string" where
  "join sep [] = []"
| "join sep [x] = x"
| "join sep (x # y # ys) = x @ sep @ join sep (y # ys)"

text \<open>
  The slice \<^verbatim>\<open>xs[:n]\<close>: a non-negative bound keeps at most \<open>n\<close> leading elements, a
  negative bound drops \<open>-n\<close> trailing elements; neither raises.
\<close>

definition slice_to :: "'a list \<Rightarrow> int \<Rightarrow> 'a list" where
  "slice_to xs n =
     (if 0 \<le> n then take (nat n) xs else take (length xs - nat (- n)) xs)"

text \<open>\<^verbatim>\<open>str(n)\<close> of a non-negative integer: its decimal digits.\<close>

definition digit_char :: "nat \<Rightarrow> char" where
  "digit_char d = ''0123456789'' ! d"

fun str_nat :: "nat \<Rightarrow> string" where
  "str_nat n = (if n < 10 then [digit_char n] else str_nat (n div 10) @ [digit_char (n mod 10)])"

declare str_nat.simps [simp del]

definition newline :: string where
  "newline = [CHR 0x0A]"

section \<open>External services, recorded effects and files\<close>

text \<open>
  Everything the scripts delegate to a library or a remote service is a field of
  \<open>services\<close>; the scripts' own control flow is modelled around them.
  \<^item> \<open>recognize_google audio language\<close>: \<^verbatim>\<open>recognizer.recognize_google\<close>, which returns
    a transcript, raises \<^verbatim>\<open>UnknownValueError\<close>, or raises \<^verbatim>\<open>RequestError\<close>;
  \<^item> \<open>microphone\<close>: the audio that \<^verbatim>\<open>recognizer.listen\<close> captures;
  \<^item> \<open>speaker_diarization path\<close>: the ordered segments of the diarization service;
  \<^item> \<open>translate source target text\<close>: \<^verbatim>\<open>GoogleTranslator(source, target).translate(text)\<close>;
  \<^item> \<open>token_lemmas text\<close>: the lemmas of the tokens of \<^verbatim>\<open>nlp(text)\<close> that are neither stop
    words nor punctuation; \<open>sents text\<close>: the texts of its sentences;
  \<^item> \<open>news url\<close>: the texts of the result elements found in the page behind \<open>url\<close>;
  \<^item> \<open>now\<close>: the date \<^verbatim>\<open>datetime.datetime.now()\<close> falls on.
\<close>

datatype sr_outcome = Recognized string | UnknownValue | RequestFailed

datatype error = UnknownValueError | RequestError | UnboundLocalError

record date =
  year :: nat
  month :: nat
  day :: nat

text \<open>
  A diarization segment; the script reads its components \<^verbatim>\<open>seg[2]\<close> (the speaker id,
  taken here in its printed form) and \<^verbatim>\<open>seg[3]\<close> (the text spoken).
\<close>

record segment =
  speaker :: string
  speech :: string

record services =
  recognize_google :: "string \<Rightarrow> string \<Rightarrow> sr_outcome"
  microphone :: string
  speaker_diarization :: "string \<Rightarrow> segment list"
  translate :: "string \<Rightarrow> string \<Rightarrow> string \<Rightarrow> string option"
  token_lemmas :: "string \<Rightarrow> string list"
  sents :: "string \<Rightarrow> string list"
  news :: "string \<Rightarrow> string list"
  now :: date

text \<open>An argument of \<^verbatim>\<open>print\<close> or \<^verbatim>\<open>st.write\<close>.\<close>

datatype shown = PStr string | PNone | PList "string list"

fun shown_opt :: "string option \<Rightarrow> shown" where
  "shown_opt None = PNone"
| "shown_opt (Some s) = PStr s"

text \<open>
  What a run does, in order: console and page output, and one event for each stage that
  is entered (with the arguments it is called with).
\<close>

datatype event =
    Print "shown list"
  | StTitle string
  | StAudio string
  | StWrite "shown list"
  | Recognition string string
  | Diarization string
  | Translation string string string
  | Preprocessing string
  | KeywordExtraction "string list" int
  | Summarization string int
  | WebSearch string
  | FileWrite string string

record world =
  trace :: "event list"
  files :: "string \<rightharpoonup> string"

definition emit :: "event \<Rightarrow> world \<Rightarrow> world" where
  "emit e w = w\<lparr>trace := trace w @ [e]\<rparr>"

text \<open>The stages that follow recognition, and those that follow translation.\<close>

fun after_recognition :: "event \<Rightarrow> bool" where
  "after_recognition (Translation s d t) = True"
| "after_recognition (Preprocessing t) = True"
| "after_recognition (KeywordExtraction ts k) = True"
| "after_recognition (Summarization t n) = True"
| "after_recognition (WebSearch u) = True"
| "after_recognition (FileWrite p c) = True"
| "after_recognition e = False"

fun after_translation :: "event \<Rightarrow> bool" where
  "after_translation (Preprocessing t) = True"
| "after_translation (KeywordExtraction ts k) = True"
| "after_translation (Summarization t n) = True"
| "after_translation (WebSearch u) = True"
| "after_translation (FileWrite p c) = True"
| "after_translation e = False"

text \<open>The source languages of the calls to the translation service, in order.\<close>

definition translation_sources :: "event list \<Rightarrow> string list" where
  "translation_sources es =
     concat (map (\<lambda>e. case e of Translation source target t \<Rightarrow> [source] | _ \<Rightarrow> []) es)"

section \<open>Recognition\<close>

text \<open>
  A local variable of a Python function is unbound until its first assignment; reading it
  before that raises \<^verbatim>\<open>UnboundLocalError\<close>.
\<close>

datatype 'a local_var = Unbound | Bound 'a

definition return_local :: "'a local_var \<Rightarrow> world \<Rightarrow> (error + 'a) \<times> world" where
  "return_local v w = (case v of Unbound \<Rightarrow> (Inl UnboundLocalError, w) | Bound x \<Rightarrow> (Inr x, w))"

text \<open>
  The assignment \<^verbatim>\<open>recognized_text = recognizer.recognize_google(audio, language=language)\<close>:
  the exception the call raises, if any, the variable afterwards, and the world.
\<close>

definition assign_recognize_google ::
  "services \<Rightarrow> string \<Rightarrow> string \<Rightarrow> world \<Rightarrow> error option \<times> string option local_var \<times> world" where
  "assign_recognize_google svc audio language w =
     (let w' = emit (Recognition audio language) w
      in case recognize_google svc audio language of
           Recognized t \<Rightarrow> (None, Bound (Some t), w')
         | UnknownValue \<Rightarrow> (Some UnknownValueError, Unbound, w')
         | RequestFailed \<Rightarrow> (Some RequestError, Unbound, w'))"

text \<open>The body of the \<^verbatim>\<open>try\<close> statement, the same text in both scripts.\<close>

definition try_body ::
  "services \<Rightarrow> string \<Rightarrow> string \<Rightarrow> world \<Rightarrow> error option \<times> string option local_var \<times> world" where
  "try_body svc audio language w =
     (if language = ''en-IN'' then assign_recognize_google svc audio language w
      else if language = ''hi-IN'' then assign_recognize_google svc audio language w
      else if language = ''or-IN'' then
        (None, Unbound, emit (Print [PStr ''Listening for Odia speech...'']) w)
      else
        (None, Bound None, emit (Print [PStr ''Language not supported'']) w))"

text \<open>
  The \<^verbatim>\<open>try\<close> statement with its single handler \<^verbatim>\<open>except sr.UnknownValueError\<close>, followed by
  \<^verbatim>\<open>return recognized_text\<close>. Any other exception leaves the function.
\<close>

definition try_and_return ::
  "services \<Rightarrow> string \<Rightarrow> string \<Rightarrow> world \<Rightarrow> (error + string option) \<times> world" where
  "try_and_return svc audio language w =
     (case try_body svc audio language w of
        (None, recognized_text, w1) \<Rightarrow> return_local recognized_text w1
      | (Some UnknownValueError, recognized_text, w1) \<Rightarrow>
          return_local (Bound None) (emit (Print [PStr ''Unable to recognize speech'']) w1)
      | (Some e, recognized_text, w1) \<Rightarrow> (Inl e, w1))"

text \<open>\<^verbatim>\<open>recognize_speech(language='en-IN')\<close> of \<^verbatim>\<open>speechreco.py\<close>.\<close>

definition recognize_speech :: "services \<Rightarrow> string \<Rightarrow> world \<Rightarrow> (error + string option) \<times> world" where
  "recognize_speech svc language w =
     (let w1 = emit (Print [PStr (''Listening for '' @ language @ '' speech...'')]) w;
          audio = microphone svc
      in try_and_return svc audio language w1)"

text \<open>\<^verbatim>\<open>recognize_speech_from_file(audio_file_path, language='en-IN')\<close> of \<^verbatim>\<open>new full impli.py\<close>.\<close>

definition recognize_speech_from_file ::
  "services \<Rightarrow> string \<Rightarrow> string \<Rightarrow> world \<Rightarrow> (error + string option) \<times> world" where
  "recognize_speech_from_file svc audio_file_path language w =
     try_and_return svc audio_file_path language w"

subsection \<open>Diarization variant\<close>

definition speaker_label :: "string \<Rightarrow> string" where
  "speaker_label s = newline @ ''Speaker '' @ s @ '':''"

text \<open>
  The loop over the segments: \<open>previous_speaker\<close> starts as \<^verbatim>\<open>None\<close>, \<open>recognized_text\<close>
  as the empty list.
\<close>

fun label_loop :: "string option \<Rightarrow> segment list \<Rightarrow> string list \<Rightarrow> string list" where
  "label_loop previous_speaker [] recognized_text = recognized_text"
| "label_loop previous_speaker (seg # segments) recognized_text =
     (if Some (speaker seg) \<noteq> previous_speaker
      then label_loop (Some (speaker seg)) segments
             ((recognized_text @ [speaker_label (speaker seg)]) @ [speech seg])
      else label_loop previous_speaker segments (recognized_text @ [speech seg]))"

text \<open>
  \<^verbatim>\<open>recognize_speech_from_file\<close> of \<^verbatim>\<open>speaker detection.py\<close>; it never reads \<open>language\<close>.
\<close>

definition recognize_speech_from_file_sd ::
  "services \<Rightarrow> string \<Rightarrow> string \<Rightarrow> world \<Rightarrow> string \<times> world" where
  "recognize_speech_from_file_sd svc audio_file_path language w =
     (let segments = speaker_diarization svc audio_file_path;
          w1 = emit (Diarization audio_file_path) w
      in (join '' '' (label_loop None segments []), w1))"

section \<open>Preprocessing, keywords, summary, web search\<close>

definition preprocess_text :: "services \<Rightarrow> string \<Rightarrow> world \<Rightarrow> string list \<times> world" where
  "preprocess_text svc text w = (token_lemmas svc text, emit (Preprocessing text) w)"

text \<open>
  \<^verbatim>\<open>Counter(text)\<close> as an association list in insertion order: each element either bumps
  the count of its key or is appended with count 1.
\<close>

fun counter_incr :: "'a \<Rightarrow> ('a \<times> nat) list \<Rightarrow> ('a \<times> nat) list" where
  "counter_incr x [] = [(x, 1)]"
| "counter_incr x ((k, c) # kcs) =
     (if k = x then (k, c + 1) # kcs else (k, c) # counter_incr x kcs)"

definition Counter :: "'a list \<Rightarrow> ('a \<times> nat) list" where
  "Counter text = foldl (\<lambda>c x. counter_incr x c) [] text"

text \<open>Iterating a \<^verbatim>\<open>Counter\<close> yields its keys in insertion order.\<close>

definition counter_keys :: "('a \<times> nat) list \<Rightarrow> 'a list" where
  "counter_keys c = map fst c"

text \<open>
  \<^verbatim>\<open>word_freq.get\<close> as a sort key. It is only applied to keys of \<open>word_freq\<close>, where it
  is the count; the value for a missing key is never compared.
\<close>

definition counter_get :: "('a \<times> nat) list \<Rightarrow> 'a \<Rightarrow> nat" where
  "counter_get c k = (case map_of c k of Some n \<Rightarrow> n | None \<Rightarrow> 0)"

text \<open>
  \<^verbatim>\<open>heapq.nlargest(n, iterable, key)\<close>: the library documents it as
  \<^verbatim>\<open>sorted(iterable, key=key, reverse=True)[:n]\<close>, a stable descending sort, and it
  yields the empty list for \<open>n \<le> 0\<close>.
\<close>

definition sorted_reverse :: "('a \<Rightarrow> nat) \<Rightarrow> 'a list \<Rightarrow> 'a list" where
  "sorted_reverse key xs = sort_key (\<lambda>x. - int (key x)) xs"

definition nlargest :: "int \<Rightarrow> 'a list \<Rightarrow> ('a \<Rightarrow> nat) \<Rightarrow> 'a list" where
  "nlargest n xs key = (if n \<le> 0 then [] else take (nat n) (sorted_reverse key xs))"

text \<open>\<^verbatim>\<open>extract_keywords(text, num_keywords=5)\<close>, identical in the three scripts.\<close>

definition extract_keywords :: "'a list \<Rightarrow> int \<Rightarrow> 'a list" where
  "extract_keywords text num_keywords =
     (let word_freq = Counter text
      in nlargest num_keywords (counter_keys word_freq) (counter_get word_freq))"

text \<open>\<^verbatim>\<open>generate_summary(text, num_sentences=3)\<close>, identical in the three scripts.\<close>

definition generate_summary :: "services \<Rightarrow> string \<Rightarrow> int \<Rightarrow> string" where
  "generate_summary svc text num_sentences =
     (let sentences = sents svc text;
          summary = join '' '' (slice_to sentences num_sentences)
      in summary)"

definition search_web :: "services \<Rightarrow> string \<Rightarrow> world \<Rightarrow> string list \<times> world" where
  "search_web svc translated_text w =
     (let url = ''https://www.google.com/search?q='' @ translated_text @ ''&tbm=nws''
      in (news svc url, emit (WebSearch url) w))"

section \<open>Persistence and translation\<close>

text \<open>
  \<^verbatim>\<open>strftime('%Y-%m-%d')\<close>: the year, then month and day zero-padded to two digits, with
  hyphens between. The year is padded to four digits; for the years from 1000 on, where
  every platform agrees, the padding adds nothing.
\<close>

definition zero_pad :: "nat \<Rightarrow> string \<Rightarrow> string" where
  "zero_pad width s = replicate (width - length s) CHR ''0'' @ s"

definition strftime_Ymd :: "date \<Rightarrow> string" where
  "strftime_Ymd d =
     zero_pad 4 (str_nat (year d)) @ ''-'' @ zero_pad 2 (str_nat (month d)) @ ''-'' @
     zero_pad 2 (str_nat (day d))"

definition get_timestamp :: "date \<Rightarrow> string" where
  "get_timestamp today = strftime_Ymd today"

text \<open>
  The body of \<^verbatim>\<open>for i, speech in enumerate(meeting_minutes)\<close>: each
  \<^verbatim>\<open>file.write(f"Segment {i + 1}:\n{speech}\n\n")\<close> appends to what the file holds
  (\<open>spoken\<close> is the loop variable \<^verbatim>\<open>speech\<close>).
\<close>

fun write_segments :: "nat \<Rightarrow> string list \<Rightarrow> string \<Rightarrow> string" where
  "write_segments i [] written = written"
| "write_segments i (spoken # rest) written =
     write_segments (i + 1) rest
       (written @ (''Segment '' @ str_nat (i + 1) @ '':'' @ newline @ spoken @ newline @ newline))"

text \<open>
  \<^verbatim>\<open>save_minutes(meeting_minutes, filename="meeting_minutes.txt")\<close> of
  \<^verbatim>\<open>new full impli.py\<close>. Opening with mode \<^verbatim>\<open>"w"\<close> creates the file or truncates it to
  nothing; \<open>today\<close> is the date the clock shows.
\<close>

definition save_minutes :: "date \<Rightarrow> string list \<Rightarrow> string \<Rightarrow> world \<Rightarrow> world" where
  "save_minutes today meeting_minutes filename w =
     (let timestamp = get_timestamp today;
          path = filename @ ''-'' @ timestamp;
          opened = [];
          written = write_segments 0 meeting_minutes opened
      in emit (FileWrite path written) (w\<lparr>files := (files w)(path \<mapsto> written)\<rparr>))"

text \<open>\<^verbatim>\<open>save_minutes(recognized_text, filename="meeting_minutes.txt")\<close> of \<^verbatim>\<open>speaker detection.py\<close>.\<close>

definition save_minutes_sd :: "date \<Rightarrow> string \<Rightarrow> string \<Rightarrow> world \<Rightarrow> world" where
  "save_minutes_sd today recognized_text filename w =
     (let timestamp = get_timestamp today;
          path = filename @ ''-'' @ timestamp;
          opened = [];
          written = opened @ recognized_text
      in emit (FileWrite path written) (w\<lparr>files := (files w)(path \<mapsto> written)\<rparr>))"

text \<open>\<^verbatim>\<open>translate_text(text, dest_language='en')\<close> of \<^verbatim>\<open>new full impli.py\<close>.\<close>

definition translate_text :: "services \<Rightarrow> string \<Rightarrow> string \<Rightarrow> world \<Rightarrow> string option \<times> world" where
  "translate_text svc text dest_language w =
     (let translated_text = translate svc ''auto'' dest_language text
      in (translated_text, emit (Translation ''auto'' dest_language text) w))"

text \<open>\<^verbatim>\<open>translate_text(text, dest_language='en')\<close> of \<^verbatim>\<open>speaker detection.py\<close>.\<close>

definition translate_text_sd :: "services \<Rightarrow> string \<Rightarrow> string \<Rightarrow> world \<Rightarrow> string option \<times> world" where
  "translate_text_sd svc text dest_language w =
     (let translated_text = translate svc ''hi-EN'' dest_language text
      in (translated_text, emit (Translation ''hi-EN'' dest_language text) w))"

section \<open>The two pipelines\<close>

text \<open>
  The module-level flow of \<^verbatim>\<open>new full impli.py\<close>, innermost block first. The script
  passes no language, so \<^verbatim>\<open>recognize_speech_from_file\<close> runs with its default; the flow
  is stated for any language and the script is its instance at \<^verbatim>\<open>'en-IN'\<close>.
\<close>

definition translated_block :: "services \<Rightarrow> string \<Rightarrow> world \<Rightarrow> world" where
  "translated_block svc translated_text w =
     (let (preprocessed_text, w1) = preprocess_text svc translated_text w;
          w2 = emit (Print [PStr ''Preprocessed Text:'', PList preprocessed_text]) w1;
          w3 = emit (KeywordExtraction preprocessed_text 5) w2;
          keywords = extract_keywords preprocessed_text 5;
          w4 = emit (Print [PStr ''Keywords:'', PList keywords]) w3;
          w5 = emit (Summarization translated_text 3) w4;
          summary = generate_summary svc translated_text 3;
          w6 = emit (Print [PStr ''Summary:'', PStr summary]) w5;
          topic = (case keywords of [] \<Rightarrow> ''general'' | k # ks \<Rightarrow> k);
          (news_articles, w7) = search_web svc translated_text w6;
          w8 = emit (Print [PStr ''News Articles:'', PList news_articles]) w7;
          w9 = save_minutes (now svc) [translated_text] ''meeting_minutes.txt'' w8
      in emit (Print [PStr ''Meeting minutes saved to file.'']) w9)"

definition recognized_block :: "services \<Rightarrow> string \<Rightarrow> world \<Rightarrow> world" where
  "recognized_block svc recognized_text w =
     (let (translated_text, w1) = translate_text svc recognized_text ''en'' w;
          w2 = emit (Print [PStr ''Translated Text:'', shown_opt translated_text]) w1
      in if truthy translated_text
         then (case translated_text of
                 Some t \<Rightarrow> translated_block svc t w2
               | None \<Rightarrow> w2)
         else emit (Print [PStr ''Translation failed.'']) w2)"

definition main_flow_in :: "services \<Rightarrow> string \<Rightarrow> string \<Rightarrow> world \<Rightarrow> error option \<times> world" where
  "main_flow_in svc audio_file_path language w =
     (case recognize_speech_from_file svc audio_file_path language w of
        (Inl e, w1) \<Rightarrow> (Some e, w1)
      | (Inr recognized_text, w1) \<Rightarrow>
          (let w2 = emit (Print [PStr ''Recognized Text:'', shown_opt recognized_text]) w1
           in if truthy recognized_text
              then (case recognized_text of
                      Some t \<Rightarrow> (None, recognized_block svc t w2)
                    | None \<Rightarrow> (None, w2))
              else (None, emit (Print [PStr ''No speech recognized.'']) w2)))"

definition main_flow :: "services \<Rightarrow> string \<Rightarrow> world \<Rightarrow> error option \<times> world" where
  "main_flow svc audio_file_path w = main_flow_in svc audio_file_path ''en-IN'' w"

text \<open>
  The Streamlit flow of \<^verbatim>\<open>speaker detection.py\<close>; \<open>uploaded_file\<close> is \<^verbatim>\<open>None\<close> until a
  file is uploaded.
\<close>

definition translated_block_sd :: "services \<Rightarrow> string \<Rightarrow> string \<Rightarrow> world \<Rightarrow> world" where
  "translated_block_sd svc recognized_text translated_text w =
     (let w0 = emit (StWrite [PStr ''Translated Text:'', PStr translated_text]) w;
          (preprocessed_text, w1) = preprocess_text svc translated_text w0;
          w2 = emit (StWrite [PStr ''Preprocessed Text:'', PList preprocessed_text]) w1;
          w3 = emit (KeywordExtraction preprocessed_text 5) w2;
          keywords = extract_keywords preprocessed_text 5;
          w4 = emit (StWrite [PStr ''Keywords:'', PList keywords]) w3;
          w5 = emit (Summarization translated_text 3) w4;
          summary = generate_summary svc translated_text 3;
          w6 = emit (StWrite [PStr ''Summary:'', PStr summary]) w5;
          (news_articles, w7) = search_web svc translated_text w6;
          w8 = emit (StWrite [PStr ''News Articles:'', PList news_articles]) w7;
          w9 = save_minutes_sd (now svc) recognized_text ''meeting_minutes.txt'' w8
      in emit (StWrite [PStr ''Meeting minutes with speaker labels saved to file.'']) w9)"

definition recognized_block_sd :: "services \<Rightarrow> string \<Rightarrow> world \<Rightarrow> world" where
  "recognized_block_sd svc recognized_text w =
     (let w1 = emit (StWrite [PStr ''Recognized Text with Speaker Labels:'']) w;
          w2 = emit (StWrite [PStr recognized_text]) w1;
          (translated_text, w3) = translate_text_sd svc recognized_text ''en'' w2
      in if truthy translated_text
         then (case translated_text of
                 Some t \<Rightarrow> translated_block_sd svc recognized_text t w3
               | None \<Rightarrow> w3)
         else w3)"

definition streamlit_flow :: "services \<Rightarrow> string option \<Rightarrow> world \<Rightarrow> world" where
  "streamlit_flow svc uploaded_file w =
     (let w1 = emit (StTitle ''Speech to Text Translation and Analysis'') w
      in case uploaded_file of
           None \<Rightarrow> w1
         | Some f \<Rightarrow>
             (let w2 = emit (StAudio f) w1;
                  (recognized_text, w3) = recognize_speech_from_file_sd svc f ''en-IN'' w2
              in if recognized_text \<noteq> [] then recognized_block_sd svc recognized_text w3 else w3))"

section \<open>Descriptions to compare the code with\<close>

text \<open>
  The labelled transcript as the description has it: segment \<open>i\<close> (counted from 0)
  carries a marker when it is the first one or its speaker differs from the speaker of
  segment \<open>i - 1\<close>; its text follows in either case. The marker is a line break, the
  word \<^verbatim>\<open>Speaker\<close>, a space, the speaker id and a colon.
\<close>

definition marker_at :: "segment list \<Rightarrow> nat \<Rightarrow> bool" where
  "marker_at segs i = (i = 0 \<or> speaker (segs ! i) \<noteq> speaker (segs ! (i - 1)))"

definition labelled_items :: "segment list \<Rightarrow> string list" where
  "labelled_items segs =
     concat (map (\<lambda>i. (if marker_at segs i
                         then [CHR 0x0A # ''Speaker '' @ speaker (segs ! i) @ '':''] else [])
                        @ [speech (segs ! i)])
                 [0..<length segs])"



text \<open>Number of occurrences of a token, and a well-formed \<^verbatim>\<open>YYYY-MM-DD\<close> string.\<close>

definition frequency :: "'a list \<Rightarrow> 'a \<Rightarrow> nat" where
  "frequency tokens t = count_list tokens t"

definition is_digit :: "char \<Rightarrow> bool" where
  "is_digit c = (c \<in> set ''0123456789'')"

text \<open>The number a string of decimal digits denotes.\<close>

definition digit_value :: "char \<Rightarrow> nat" where
  "digit_value c = of_char c - 48"

definition decimal_value :: "string \<Rightarrow> nat" where
  "decimal_value s = foldl (\<lambda>acc c. 10 * acc + digit_value c) 0 s"

definition is_Ymd :: "string \<Rightarrow> bool" where
  "is_Ymd s =
     (length s = 10 \<and> s ! 4 = CHR ''-'' \<and> s ! 7 = CHR ''-'' \<and>
      list_all is_digit (take 4 s) \<and> list_all is_digit (take 2 (drop 5 s)) \<and>
      list_all is_digit (drop 8 s))"

section \<open>Sample runs\<close>

text \<open>
  Concrete sets of services on which the definitions are evaluated: an upload of five
  diarized segments whose translation has four sentences; a recording whose translation
  consists of a stop word only, so that no keyword and no news snippet is found; and the
  first one again with a translator that returns \<^verbatim>\<open>None\<close>.
\<close>

definition sample_segments :: "segment list" where
  "sample_segments =
     [\<lparr>speaker = ''A'', speech = ''namaste''\<rparr>, \<lparr>speaker = ''A'', speech = ''sab log''\<rparr>,
      \<lparr>speaker = ''B'', speech = ''hello''\<rparr>, \<lparr>speaker = ''B'', speech = ''kaise ho''\<rparr>,
      \<lparr>speaker = ''A'', speech = ''theek''\<rparr>]"

definition sample_services :: services where
  "sample_services =
     \<lparr>recognize_google = (\<lambda>audio language. Recognized ''namaste duniya''),
      microphone = ''mic'',
      speaker_diarization = (\<lambda>path. sample_segments),
      translate = (\<lambda>source target t. Some ''Hello world. Good day. Bye now. See you.''),
      token_lemmas = (\<lambda>t. [''hello'', ''world'', ''good'', ''day'', ''hello'']),
      sents = (\<lambda>t. [''Hello world.'', ''Good day.'', ''Bye now.'', ''See you.'']),
      news = (\<lambda>url. [''Hello world turns fifty'']),
      now = \<lparr>year = 2026, month = 11, day = 4\<rparr>\<rparr>"

definition stop_word_services :: services where
  "stop_word_services =
     \<lparr>recognize_google = (\<lambda>audio language. Recognized ''the''),
      microphone = ''mic'',
      speaker_diarization = (\<lambda>path. []),
      translate = (\<lambda>source target t. Some ''the''),
      token_lemmas = (\<lambda>t. []),
      sents = (\<lambda>t. [''the'']),
      news = (\<lambda>url. []),
      now = \<lparr>year = 2026, month = 11, day = 4\<rparr>\<rparr>"

definition untranslated_services :: services where
  "untranslated_services = sample_services\<lparr>translate := (\<lambda>source target t. None)\<rparr>"

definition empty_world :: world where
  "empty_world = \<lparr>trace = [], files = Map.empty\<rparr>"

definition sample_tokens :: "string list" where
  "sample_tokens = [''b'', ''a'', ''b'', ''c'', ''a'', ''d'']"

section \<open>Properties\<close>

lemma slice_to_nonneg: "0 \<le> n \<Longrightarrow> slice_to xs n = take (nat n) xs"
  by (simp add: slice_to_def)

lemma take_eq_map_nth: "n \<le> length xs \<Longrightarrow> take n xs = map (\<lambda>i. xs ! i) [0..<n]"
  by (simp add: list_eq_iff_nth_eq)

subsection \<open>Recognition of an \<^verbatim>\<open>or-IN\<close> recording\<close>

text \<open>
  C1 (recognition with language code \<^verbatim>\<open>or-IN\<close>). The claim is that the operation prints a
  placeholder message, returns \<^verbatim>\<open>None\<close> and raises no error. The code prints the
  placeholder, but the \<^verbatim>\<open>or-IN\<close> branch never assigns \<^verbatim>\<open>recognized_text\<close>, so the
  \<^verbatim>\<open>return\<close> statement raises \<^verbatim>\<open>UnboundLocalError\<close>, in \<^verbatim>\<open>recognize_speech_from_file\<close>
  and in \<^verbatim>\<open>recognize_speech\<close> alike, whatever the audio and the services are.
\<close>

theorem or_IN_raises_unbound_local:
  "recognize_speech_from_file svc audio ''or-IN'' w =
     (Inl UnboundLocalError, emit (Print [PStr ''Listening for Odia speech...'']) w) \<and>
   recognize_speech svc ''or-IN'' w =
     (Inl UnboundLocalError,
      emit (Print [PStr ''Listening for Odia speech...''])
        (emit (Print [PStr ''Listening for or-IN speech...'']) w))"
  by (simp add: recognize_speech_from_file_def recognize_speech_def try_and_return_def
      try_body_def return_local_def)

subsection \<open>Summaries\<close>

text \<open>
  C4 (summary of at most the available sentences). For a text with \<open>M\<close> sentences and a
  requested length \<open>N\<close> with \<open>0 \<le> N \<le> M\<close>, \<^verbatim>\<open>generate_summary\<close> returns the sentences at
  positions \<open>0, \<dots>, N - 1\<close>, in that order and as the sentence splitter gave them, joined
  with a single space.
\<close>

theorem generate_summary_first_sentences:
  assumes "0 \<le> N" and "N \<le> int (length (sents svc doc))"
  shows "generate_summary svc doc N = join '' '' (take (nat N) (sents svc doc)) \<and>
         take (nat N) (sents svc doc) = map (\<lambda>i. sents svc doc ! i) [0..<nat N] \<and>
         length (take (nat N) (sents svc doc)) = nat N"
proof -
  have le: "nat N \<le> length (sents svc doc)" using assms by simp
  have "generate_summary svc doc N = join '' '' (take (nat N) (sents svc doc))"
    using assms(1) by (simp add: generate_summary_def slice_to_nonneg)
  moreover have "take (nat N) (sents svc doc) = map (\<lambda>i. sents svc doc ! i) [0..<nat N]"
    using le by (rule take_eq_map_nth)
  moreover have "length (take (nat N) (sents svc doc)) = nat N"
    using le by simp
  ultimately show ?thesis by simp
qed

theorem generate_summary_first_sentences_witness:
  "(0::int) \<le> 3 \<and> (3::int) \<le> int (length (sents sample_services ''x'')) \<and>
   generate_summary sample_services ''x'' 3 = ''Hello world. Good day. Bye now.''"
proof -
  have h0: "(0::int) \<le> 3" by simp
  have h1: "(3::int) \<le> int (length (sents sample_services ''x''))"
    by (simp add: sample_services_def)
  show ?thesis
    using h0 h1 generate_summary_first_sentences [OF h0 h1]
    by (simp add: sample_services_def)
qed

text \<open>
  C9 (summary longer than the text). For a text with \<open>M\<close> sentences and a requested length
  \<open>N > M\<close>, \<^verbatim>\<open>generate_summary\<close> returns a value (the model has no failing branch): all
  \<open>M\<close> sentences joined with a single space.
\<close>

theorem generate_summary_clamped:
  assumes "int (length (sents svc doc)) < N"
  shows "generate_summary svc doc N = join '' '' (sents svc doc)"
  using assms by (simp add: generate_summary_def slice_to_def)

theorem generate_summary_clamped_witness:
  "int (length (sents sample_services ''x'')) < 7 \<and>
   generate_summary sample_services ''x'' 7 = ''Hello world. Good day. Bye now. See you.''"
proof -
  have h: "int (length (sents sample_services ''x'')) < 7"
    by (simp add: sample_services_def)
  show ?thesis
    using h generate_summary_clamped [OF h] by (simp add: sample_services_def)
qed

subsection \<open>Keywords\<close>

lemma counter_incr_keys:
  "map fst (counter_incr x c) = (if x \<in> fst ` set c then map fst c else map fst c @ [x])"
  by (induction c) (auto split: if_splits)

lemma counter_incr_get:
  "counter_get (counter_incr x c) k = counter_get c k + (if k = x then 1 else 0)"
  by (induction c) (auto simp: counter_get_def)

lemma counter_incr_key_set: "fst ` set (counter_incr x c) = insert x (fst ` set c)"
proof -
  have "set (map fst (counter_incr x c)) = insert x (set (map fst c))"
    unfolding counter_incr_keys by auto
  then show ?thesis by simp
qed

lemma counter_fold_keys_set:
  "fst ` set (foldl (\<lambda>c x. counter_incr x c) c toks) = fst ` set c \<union> set toks"
  by (induction toks arbitrary: c) (simp_all add: counter_incr_key_set)

lemma counter_get_Nil: "counter_get [] k = 0"
  by (simp add: counter_get_def)

lemma counter_fold_keys_distinct:
  "distinct (map fst c) \<Longrightarrow> distinct (map fst (foldl (\<lambda>c x. counter_incr x c) c toks))"
  by (induction toks arbitrary: c) (auto simp: counter_incr_keys)

lemma counter_fold_get:
  "counter_get (foldl (\<lambda>c x. counter_incr x c) c toks) k = counter_get c k + count_list toks k"
  by (induction toks arbitrary: c) (auto simp: counter_incr_get)

lemma Counter_keys_set: "set (counter_keys (Counter toks)) = set toks"
  by (simp add: counter_keys_def Counter_def counter_fold_keys_set)

lemma Counter_keys_distinct: "distinct (counter_keys (Counter toks))"
  by (simp add: counter_keys_def Counter_def counter_fold_keys_distinct)

lemma Counter_get: "counter_get (Counter toks) k = frequency toks k"
  by (simp add: Counter_def counter_fold_get frequency_def counter_get_Nil)

lemma sorted_reverse_set: "set (sorted_reverse key xs) = set xs"
  by (simp add: sorted_reverse_def)

lemma sorted_reverse_distinct: "distinct (sorted_reverse key xs) = distinct xs"
  by (simp add: sorted_reverse_def)

lemma sorted_reverse_descending:
  "sorted_wrt (\<lambda>a b. key b \<le> key a) (sorted_reverse key xs)"
proof -
  have "sorted (map (\<lambda>x. - int (key x)) (sort_key (\<lambda>x. - int (key x)) xs))"
    by (rule sorted_sort_key)
  then show ?thesis
    by (simp add: sorted_reverse_def sorted_map)
qed

lemma nlargest_length:
  assumes "0 \<le> n"
  shows "int (length (nlargest n xs key)) \<le> n"
proof (cases "n \<le> 0")
  case True
  with assms show ?thesis by (simp add: nlargest_def)
next
  case False
  have "length (take (nat n) (sorted_reverse key xs)) \<le> nat n" by simp
  with False show ?thesis by (simp add: nlargest_def)
qed

lemma nlargest_set: "set (nlargest n xs key) \<subseteq> set xs"
  using set_take_subset [of "nat n" "sorted_reverse key xs"]
  by (simp add: nlargest_def sorted_reverse_set)

lemma nlargest_distinct: "distinct xs \<Longrightarrow> distinct (nlargest n xs key)"
  by (simp add: nlargest_def sorted_reverse_distinct)

lemma nlargest_descending: "sorted_wrt (\<lambda>a b. key b \<le> key a) (nlargest n xs key)"
  by (simp add: nlargest_def sorted_reverse_descending)

lemma nlargest_dominates:
  assumes "x \<in> set xs" and "x \<notin> set (nlargest n xs key)" and "y \<in> set (nlargest n xs key)"
  shows "key x \<le> key y"
proof -
  let ?ys = "sorted_reverse key xs"
  from assms(3) have pos: "0 < n" by (auto simp: nlargest_def split: if_splits)
  then have res: "nlargest n xs key = take (nat n) ?ys" by (simp add: nlargest_def)
  have "sorted_wrt (\<lambda>a b. key b \<le> key a) (take (nat n) ?ys @ drop (nat n) ?ys)"
    using sorted_reverse_descending [of key xs] by simp
  then have dom: "\<forall>a \<in> set (take (nat n) ?ys). \<forall>b \<in> set (drop (nat n) ?ys). key b \<le> key a"
    unfolding sorted_wrt_append by blast
  have "x \<in> set (take (nat n) ?ys) \<union> set (drop (nat n) ?ys)"
    using assms(1) by (simp only: set_append [symmetric] append_take_drop_id sorted_reverse_set)
  with assms(2) res have "x \<in> set (drop (nat n) ?ys)" by simp
  with dom assms(3) res show ?thesis by simp
qed

text \<open>
  C5 (keywords). For a token list and a parameter \<open>K \<ge> 0\<close>, \<^verbatim>\<open>extract_keywords\<close> returns at
  most \<open>K\<close> elements, pairwise distinct, each occurring in the token list, in order of
  non-increasing number of occurrences; and no token left out occurs more often than a
  token returned.
\<close>

theorem extract_keywords_top_k:
  assumes "0 \<le> K"
  shows "int (length (extract_keywords tokens K)) \<le> K \<and>
         distinct (extract_keywords tokens K) \<and>
         set (extract_keywords tokens K) \<subseteq> set tokens \<and>
         sorted_wrt (\<lambda>a b. frequency tokens b \<le> frequency tokens a) (extract_keywords tokens K) \<and>
         (\<forall>x \<in> set tokens - set (extract_keywords tokens K).
            \<forall>y \<in> set (extract_keywords tokens K). frequency tokens x \<le> frequency tokens y)"
proof -
  let ?c = "Counter tokens"
  have eq: "extract_keywords tokens K = nlargest K (counter_keys ?c) (counter_get ?c)"
    by (simp add: extract_keywords_def Let_def)
  have get: "counter_get ?c = frequency tokens"
    by (rule ext) (rule Counter_get)
  have 1: "int (length (extract_keywords tokens K)) \<le> K"
    unfolding eq using assms by (rule nlargest_length)
  have 2: "distinct (extract_keywords tokens K)"
    unfolding eq by (rule nlargest_distinct) (rule Counter_keys_distinct)
  have 3: "set (extract_keywords tokens K) \<subseteq> set tokens"
    unfolding eq using nlargest_set [of K "counter_keys ?c" "counter_get ?c"]
    by (simp only: Counter_keys_set)
  have 4: "sorted_wrt (\<lambda>a b. frequency tokens b \<le> frequency tokens a) (extract_keywords tokens K)"
    unfolding eq using nlargest_descending [of "counter_get ?c" K "counter_keys ?c"]
    by (simp only: get)
  have 5: "\<forall>x \<in> set tokens - set (extract_keywords tokens K).
            \<forall>y \<in> set (extract_keywords tokens K). frequency tokens x \<le> frequency tokens y"
  proof (intro ballI)
    fix x y
    assume x: "x \<in> set tokens - set (extract_keywords tokens K)"
      and y: "y \<in> set (extract_keywords tokens K)"
    from x have "x \<in> set (counter_keys ?c)" by (simp add: Counter_keys_set)
    moreover from x have "x \<notin> set (nlargest K (counter_keys ?c) (counter_get ?c))"
      by (simp add: eq)
    moreover from y have "y \<in> set (nlargest K (counter_keys ?c) (counter_get ?c))"
      by (simp add: eq)
    ultimately have "counter_get ?c x \<le> counter_get ?c y" by (rule nlargest_dominates)
    then show "frequency tokens x \<le> frequency tokens y" by (simp only: get)
  qed
  from 1 2 3 4 5 show ?thesis by blast
qed

theorem extract_keywords_top_k_witness:
  "(0::int) \<le> 2 \<and> extract_keywords sample_tokens 2 = [''b'', ''a''] \<and>
   int (length (extract_keywords sample_tokens 2)) \<le> 2 \<and>
   distinct (extract_keywords sample_tokens 2) \<and>
   set (extract_keywords sample_tokens 2) \<subseteq> set sample_tokens"
proof -
  have h: "(0::int) \<le> 2" by simp
  have e: "extract_keywords sample_tokens 2 = [''b'', ''a'']"
    unfolding sample_tokens_def by code_simp
  show ?thesis
    using h e extract_keywords_top_k [OF h, of sample_tokens] by simp
qed

subsection \<open>Speaker labels\<close>

lemma upt_Suc_shift: "map f [0..<Suc n] = f 0 # map (\<lambda>i. f (Suc i)) [0..<n]"
proof -
  have "[0..<Suc n] = 0 # map Suc [0..<n]"
    by (simp only: map_Suc_upt upt_conv_Cons [of 0 "Suc n"] zero_less_Suc if_True)
  then show ?thesis by (simp add: o_def del: upt_Suc)
qed

lemma label_loop_items:
  "label_loop prev segs acc =
     acc @ concat (map (\<lambda>i.
        (if (if i = 0 then Some (speaker (segs ! 0)) \<noteq> prev
             else speaker (segs ! i) \<noteq> speaker (segs ! (i - 1)))
         then [speaker_label (speaker (segs ! i))] else []) @ [speech (segs ! i)])
       [0..<length segs])"
proof (induction segs arbitrary: prev acc)
  case Nil
  show ?case by simp
next
  case (Cons s rest)
  let ?first = "(if Some (speaker s) \<noteq> prev then [speaker_label (speaker s)] else []) @ [speech s]"
  let ?item = "\<lambda>p xs i.
        (if (if i = 0 then Some (speaker (xs ! 0)) \<noteq> p
             else speaker (xs ! i) \<noteq> speaker (xs ! (i - 1)))
         then [speaker_label (speaker (xs ! i))] else []) @ [speech (xs ! i)]"
  have step: "label_loop prev (s # rest) acc = label_loop (Some (speaker s)) rest (acc @ ?first)"
    by simp
  have tail: "map (\<lambda>i. ?item prev (s # rest) (Suc i)) [0..<length rest] =
              map (?item (Some (speaker s)) rest) [0..<length rest]"
    by (rule map_cong) (auto simp: nth_Cons')
  have "label_loop prev (s # rest) acc =
          (acc @ ?first) @ concat (map (?item (Some (speaker s)) rest) [0..<length rest])"
    unfolding step by (rule Cons.IH)
  also have "\<dots> = acc @ concat (?item prev (s # rest) 0 #
                 map (\<lambda>i. ?item prev (s # rest) (Suc i)) [0..<length rest])"
    unfolding tail by simp
  also have "\<dots> = acc @ concat (map (?item prev (s # rest)) [0..<length (s # rest)])"
    unfolding length_Cons upt_Suc_shift [of "?item prev (s # rest)"] ..
  finally show ?case .
qed

lemma label_loop_labelled: "label_loop None segs [] = labelled_items segs"
proof -
  have "(\<lambda>i. (if (if i = 0 then Some (speaker (segs ! 0)) \<noteq> None
             else speaker (segs ! i) \<noteq> speaker (segs ! (i - 1)))
         then [speaker_label (speaker (segs ! i))] else []) @ [speech (segs ! i)])
     = (\<lambda>i. (if marker_at segs i
               then [CHR 0x0A # ''Speaker '' @ speaker (segs ! i) @ '':''] else [])
                        @ [speech (segs ! i)])"
    by (rule ext) (simp add: marker_at_def speaker_label_def newline_def)
  then show ?thesis
    unfolding labelled_items_def label_loop_items [of None segs "[]"] by simp
qed

text \<open>
  C3 (diarization labelling). For every ordered list of segments, the pieces the loop
  collects are, segment by segment, a speaker marker (a line break, \<^verbatim>\<open>Speaker\<close>, a space,
  the speaker id and a colon) exactly when the segment is the first one or its speaker
  differs from the previous segment's, followed by the segment's text; the function
  returns these pieces joined with single spaces. For the
  speaker sequence \<open>[a, a, b, b, a]\<close> with \<open>a \<noteq> b\<close> there are exactly three markers, before
  the first, third and fifth text and none before the second or fourth.
\<close>

theorem diarization_labels:
  "label_loop None segs [] = labelled_items segs \<and>
   fst (recognize_speech_from_file_sd svc path language w) =
     join '' '' (labelled_items (speaker_diarization svc path)) \<and>
   (a \<noteq> b \<longrightarrow>
      label_loop None
        [\<lparr>speaker = a, speech = t1\<rparr>, \<lparr>speaker = a, speech = t2\<rparr>, \<lparr>speaker = b, speech = t3\<rparr>,
         \<lparr>speaker = b, speech = t4\<rparr>, \<lparr>speaker = a, speech = t5\<rparr>] [] =
      [CHR 0x0A # ''Speaker '' @ a @ '':'', t1, t2,
       CHR 0x0A # ''Speaker '' @ b @ '':'', t3, t4,
       CHR 0x0A # ''Speaker '' @ a @ '':'', t5])"
proof -
  have "label_loop None segs [] = labelled_items segs"
    by (rule label_loop_labelled)
  moreover have "fst (recognize_speech_from_file_sd svc path language w) =
     join '' '' (labelled_items (speaker_diarization svc path))"
    by (simp add: recognize_speech_from_file_sd_def Let_def label_loop_labelled)
  moreover have "a \<noteq> b \<longrightarrow>
      label_loop None
        [\<lparr>speaker = a, speech = t1\<rparr>, \<lparr>speaker = a, speech = t2\<rparr>, \<lparr>speaker = b, speech = t3\<rparr>,
         \<lparr>speaker = b, speech = t4\<rparr>, \<lparr>speaker = a, speech = t5\<rparr>] [] =
      [CHR 0x0A # ''Speaker '' @ a @ '':'', t1, t2,
       CHR 0x0A # ''Speaker '' @ b @ '':'', t3, t4,
       CHR 0x0A # ''Speaker '' @ a @ '':'', t5]"
    by (simp add: speaker_label_def newline_def)
  ultimately show ?thesis by blast
qed

theorem diarization_labels_witness:
  "''A'' \<noteq> ''B'' \<and>
   label_loop None sample_segments [] =
     [CHR 0x0A # ''Speaker A:'', ''namaste'', ''sab log'',
      CHR 0x0A # ''Speaker B:'', ''hello'', ''kaise ho'',
      CHR 0x0A # ''Speaker A:'', ''theek''] \<and>
   labelled_items sample_segments = label_loop None sample_segments [] \<and>
   fst (recognize_speech_from_file_sd sample_services ''x'' ''en-IN'' empty_world) =
     CHR 0x0A # ''Speaker A: namaste sab log '' @
     CHR 0x0A # ''Speaker B: hello kaise ho '' @
     CHR 0x0A # ''Speaker A: theek''"
proof -
  have ne: "''A'' \<noteq> ''B''" by simp
  have d: "speaker_diarization sample_services ''x'' = sample_segments"
    by (simp add: sample_services_def)
  note th = diarization_labels [of sample_segments sample_services "''x''" "''en-IN''"
      empty_world "''A''" "''B''" "''namaste''" "''sab log''" "''hello''" "''kaise ho''" "''theek''"]
  from th have e: "labelled_items sample_segments = label_loop None sample_segments []"
    by simp
  from th ne have "label_loop None
        [\<lparr>speaker = ''A'', speech = ''namaste''\<rparr>, \<lparr>speaker = ''A'', speech = ''sab log''\<rparr>,
         \<lparr>speaker = ''B'', speech = ''hello''\<rparr>, \<lparr>speaker = ''B'', speech = ''kaise ho''\<rparr>,
         \<lparr>speaker = ''A'', speech = ''theek''\<rparr>] [] =
      [CHR 0x0A # ''Speaker '' @ ''A'' @ '':'', ''namaste'', ''sab log'',
       CHR 0x0A # ''Speaker '' @ ''B'' @ '':'', ''hello'', ''kaise ho'',
       CHR 0x0A # ''Speaker '' @ ''A'' @ '':'', ''theek'']"
    by blast
  then have l: "label_loop None sample_segments [] =
     [CHR 0x0A # ''Speaker A:'', ''namaste'', ''sab log'',
      CHR 0x0A # ''Speaker B:'', ''hello'', ''kaise ho'',
      CHR 0x0A # ''Speaker A:'', ''theek'']"
    unfolding sample_segments_def by (simp del: label_loop.simps)
  from th have r: "fst (recognize_speech_from_file_sd sample_services ''x'' ''en-IN'' empty_world) =
       join '' '' (labelled_items (speaker_diarization sample_services ''x''))"
    by blast
  have j: "fst (recognize_speech_from_file_sd sample_services ''x'' ''en-IN'' empty_world) =
     CHR 0x0A # ''Speaker A: namaste sab log '' @
     CHR 0x0A # ''Speaker B: hello kaise ho '' @
     CHR 0x0A # ''Speaker A: theek''"
    unfolding r d e l by simp
  from ne l e j show ?thesis by blast
qed

subsection \<open>The minutes file\<close>





subsection \<open>Two runs on the same day\<close>

lemma is_digit_digit_char: "d < 10 \<Longrightarrow> is_digit (digit_char d)"
  unfolding is_digit_def digit_char_def by (rule nth_mem) simp

lemma str_nat_digits: "list_all is_digit (str_nat n)"
proof (induction n rule: str_nat.induct)
  case (1 n)
  show ?case
  proof (cases "n < 10")
    case True
    then show ?thesis by (subst str_nat.simps) (simp add: is_digit_digit_char)
  next
    case False
    with "1.IH" show ?thesis by (subst str_nat.simps) (simp add: is_digit_digit_char)
  qed
qed

lemma str_nat_length_1: "n < 10 \<Longrightarrow> length (str_nat n) = 1"
  by (subst str_nat.simps) simp

lemma str_nat_length_2: "n < 100 \<Longrightarrow> length (str_nat n) \<le> 2"
  by (subst str_nat.simps) (simp add: str_nat_length_1)

lemma str_nat_length_3: "n < 1000 \<Longrightarrow> length (str_nat n) \<le> 3"
  using str_nat_length_2 [of "n div 10"] by (subst str_nat.simps) simp

lemma str_nat_length_4: "n < 10000 \<Longrightarrow> length (str_nat n) \<le> 4"
  using str_nat_length_3 [of "n div 10"] by (subst str_nat.simps) simp

lemma zero_pad_length: "length s \<le> width \<Longrightarrow> length (zero_pad width s) = width"
  by (simp add: zero_pad_def)

lemma is_digit_zero: "is_digit CHR ''0''"
  by (simp add: is_digit_def)

lemma zero_pad_digits: "list_all is_digit s \<Longrightarrow> list_all is_digit (zero_pad width s)"
  by (auto simp: zero_pad_def list_all_iff is_digit_zero)

lemma is_Ymd_parts:
  assumes "length y = 4" "length m = 2" "length d = 2"
    and "list_all is_digit y" "list_all is_digit m" "list_all is_digit d"
  shows "is_Ymd (y @ ''-'' @ m @ ''-'' @ d)"
  using assms by (simp add: is_Ymd_def nth_append)

lemma strftime_Ymd_format:
  assumes "year d \<le> 9999" "month d \<le> 12" "day d \<le> 31"
  shows "is_Ymd (strftime_Ymd d)"
  unfolding strftime_Ymd_def
proof (rule is_Ymd_parts)
  show "length (zero_pad 4 (str_nat (year d))) = 4"
    using assms(1) by (intro zero_pad_length str_nat_length_4) simp
  show "length (zero_pad 2 (str_nat (month d))) = 2"
    using assms(2) by (intro zero_pad_length str_nat_length_2) simp
  show "length (zero_pad 2 (str_nat (day d))) = 2"
    using assms(3) by (intro zero_pad_length str_nat_length_2) simp
qed (simp_all add: zero_pad_digits str_nat_digits)

lemma digit_value_digit_char: "d < 10 \<Longrightarrow> digit_value (digit_char d) = d"
proof -
  assume "d < 10"
  then consider "d = 0" | "d = 1" | "d = 2" | "d = 3" | "d = 4" | "d = 5" | "d = 6" | "d = 7"
    | "d = 8" | "d = 9"
    by atomize_elim arith
  then show ?thesis
    by cases (simp_all add: digit_value_def digit_char_def)
qed

lemma decimal_value_snoc:
  "decimal_value (s @ [c]) = 10 * decimal_value s + digit_value c"
  by (simp add: decimal_value_def)

lemma decimal_value_str_nat: "decimal_value (str_nat n) = n"
proof (induction n rule: str_nat.induct)
  case (1 n)
  show ?case
  proof (cases "n < 10")
    case True
    then show ?thesis
      by (subst str_nat.simps) (simp add: decimal_value_def digit_value_digit_char)
  next
    case False
    with "1.IH" show ?thesis
      by (subst str_nat.simps) (simp add: decimal_value_snoc digit_value_digit_char)
  qed
qed

lemma decimal_value_zeros:
  "foldl (\<lambda>acc c. 10 * acc + digit_value c) 0 (replicate k CHR ''0'') = 0"
  by (induction k) (simp_all add: digit_value_def)

lemma decimal_value_zero_pad: "decimal_value (zero_pad width s) = decimal_value s"
  by (simp add: zero_pad_def decimal_value_def decimal_value_zeros)

lemma Ymd_parts_read_back:
  assumes "length y = 4" "length m = 2" "length d = 2"
  shows "take 4 (y @ ''-'' @ m @ ''-'' @ d) = y \<and>
         take 2 (drop 5 (y @ ''-'' @ m @ ''-'' @ d)) = m \<and>
         drop 8 (y @ ''-'' @ m @ ''-'' @ d) = d"
  using assms by simp

lemma strftime_Ymd_read_back:
  assumes "year d \<le> 9999" "month d \<le> 12" "day d \<le> 31"
  shows "decimal_value (take 4 (strftime_Ymd d)) = year d \<and>
         decimal_value (take 2 (drop 5 (strftime_Ymd d))) = month d \<and>
         decimal_value (drop 8 (strftime_Ymd d)) = day d"
proof -
  have y: "length (zero_pad 4 (str_nat (year d))) = 4"
    using assms(1) by (intro zero_pad_length str_nat_length_4) simp
  have m: "length (zero_pad 2 (str_nat (month d))) = 2"
    using assms(2) by (intro zero_pad_length str_nat_length_2) simp
  have dd: "length (zero_pad 2 (str_nat (day d))) = 2"
    using assms(3) by (intro zero_pad_length str_nat_length_2) simp
  show ?thesis
    unfolding strftime_Ymd_def
    using Ymd_parts_read_back [OF y m dd]
    by (simp only: decimal_value_zero_pad decimal_value_str_nat)
qed

text \<open>
  C7 (overwriting). \<^verbatim>\<open>save_minutes\<close>, in both variants, writes to the path made of the
  filename, a hyphen and the timestamp, and the file is opened truncated: after two runs
  on the same day with the same filename the file system is what the second run alone
  would have left, the file holding the second run's output only. The timestamp of a
  calendar date (four-digit year) has the shape \<^verbatim>\<open>YYYY-MM-DD\<close> and is that date: its
  first four digits read as the year, the next two as the month and the last two as the
  day.
\<close>

theorem save_minutes_overwrites:
  "files (save_minutes today second filename (save_minutes today first filename w)) =
     (files w)(filename @ ''-'' @ get_timestamp today \<mapsto> write_segments 0 second []) \<and>
   files (save_minutes today second filename (save_minutes today first filename w)) =
     files (save_minutes today second filename w) \<and>
   files (save_minutes_sd today second_text filename (save_minutes_sd today first_text filename w)) =
     (files w)(filename @ ''-'' @ get_timestamp today \<mapsto> second_text) \<and>
   files (save_minutes_sd today second_text filename (save_minutes_sd today first_text filename w)) =
     files (save_minutes_sd today second_text filename w) \<and>
   (1000 \<le> year today \<and> year today \<le> 9999 \<and> 1 \<le> month today \<and> month today \<le> 12 \<and>
    1 \<le> day today \<and> day today \<le> 31 \<longrightarrow>
      is_Ymd (get_timestamp today) \<and>
      decimal_value (take 4 (get_timestamp today)) = year today \<and>
      decimal_value (take 2 (drop 5 (get_timestamp today))) = month today \<and>
      decimal_value (drop 8 (get_timestamp today)) = day today)"
  using strftime_Ymd_read_back [of today]
  by (simp add: save_minutes_def save_minutes_sd_def Let_def emit_def get_timestamp_def
      strftime_Ymd_format)

theorem save_minutes_overwrites_witness:
  "(1000 \<le> year \<lparr>year = 2026, month = 11, day = 4\<rparr> \<and>
    year \<lparr>year = 2026, month = 11, day = 4\<rparr> \<le> 9999 \<and>
    1 \<le> month \<lparr>year = 2026, month = 11, day = 4\<rparr> \<and>
    month \<lparr>year = 2026, month = 11, day = 4\<rparr> \<le> 12 \<and>
    1 \<le> day \<lparr>year = 2026, month = 11, day = 4\<rparr> \<and>
    day \<lparr>year = 2026, month = 11, day = 4\<rparr> \<le> 31) \<and>
   is_Ymd (get_timestamp \<lparr>year = 2026, month = 11, day = 4\<rparr>) \<and>
   decimal_value (take 4 (get_timestamp \<lparr>year = 2026, month = 11, day = 4\<rparr>)) = 2026 \<and>
   decimal_value (take 2 (drop 5 (get_timestamp \<lparr>year = 2026, month = 11, day = 4\<rparr>))) = 11 \<and>
   decimal_value (drop 8 (get_timestamp \<lparr>year = 2026, month = 11, day = 4\<rparr>)) = 4 \<and>
   get_timestamp \<lparr>year = 2026, month = 11, day = 4\<rparr> = ''2026-11-04'' \<and>
   get_timestamp \<lparr>year = 1999, month = 1, day = 9\<rparr> = ''1999-01-09'' \<and>
   files (save_minutes \<lparr>year = 2026, month = 11, day = 4\<rparr> [''second''] ''m.txt''
           (save_minutes \<lparr>year = 2026, month = 11, day = 4\<rparr> [''first'', ''run''] ''m.txt''
              empty_world)) ''m.txt-2026-11-04'' =
     Some (''Segment 1:'' @ [CHR 0x0A] @ ''second'' @ [CHR 0x0A, CHR 0x0A]) \<and>
   files (save_minutes_sd \<lparr>year = 1999, month = 1, day = 9\<rparr> ''second'' ''m.txt''
           (save_minutes_sd \<lparr>year = 1999, month = 1, day = 9\<rparr> ''first run'' ''m.txt''
              empty_world)) ''m.txt-1999-01-09'' =
     Some ''second''"
proof -
  have t: "get_timestamp \<lparr>year = 2026, month = 11, day = 4\<rparr> = ''2026-11-04''"
    by code_simp
  have t': "get_timestamp \<lparr>year = 1999, month = 1, day = 9\<rparr> = ''1999-01-09''"
    by code_simp
  have c: "write_segments 0 [''second''] [] =
      ''Segment 1:'' @ [CHR 0x0A] @ ''second'' @ [CHR 0x0A, CHR 0x0A]"
    by code_simp
  note a = save_minutes_overwrites [of "\<lparr>year = 2026, month = 11, day = 4\<rparr>" "[''second'']"
        "''m.txt''" "[''first'', ''run'']" empty_world "''b''" "''a''"]
  note b = save_minutes_overwrites [of "\<lparr>year = 1999, month = 1, day = 9\<rparr>" "[]"
        "''m.txt''" "[]" empty_world "''second''" "''first run''"]
  have valid: "1000 \<le> year \<lparr>year = 2026, month = 11, day = 4\<rparr> \<and>
    year \<lparr>year = 2026, month = 11, day = 4\<rparr> \<le> 9999 \<and>
    1 \<le> month \<lparr>year = 2026, month = 11, day = 4\<rparr> \<and>
    month \<lparr>year = 2026, month = 11, day = 4\<rparr> \<le> 12 \<and>
    1 \<le> day \<lparr>year = 2026, month = 11, day = 4\<rparr> \<and>
    day \<lparr>year = 2026, month = 11, day = 4\<rparr> \<le> 31"
    by simp
  from a valid have shape: "is_Ymd (get_timestamp \<lparr>year = 2026, month = 11, day = 4\<rparr>)"
    and y: "decimal_value (take 4 (get_timestamp \<lparr>year = 2026, month = 11, day = 4\<rparr>)) = 2026"
    and m: "decimal_value (take 2 (drop 5 (get_timestamp \<lparr>year = 2026, month = 11, day = 4\<rparr>))) = 11"
    and d: "decimal_value (drop 8 (get_timestamp \<lparr>year = 2026, month = 11, day = 4\<rparr>)) = 4"
    by simp_all
  from a have f: "files (save_minutes \<lparr>year = 2026, month = 11, day = 4\<rparr> [''second''] ''m.txt''
           (save_minutes \<lparr>year = 2026, month = 11, day = 4\<rparr> [''first'', ''run''] ''m.txt''
              empty_world)) ''m.txt-2026-11-04'' =
     Some (''Segment 1:'' @ [CHR 0x0A] @ ''second'' @ [CHR 0x0A, CHR 0x0A])"
    unfolding c t by simp
  from b have g: "files (save_minutes_sd \<lparr>year = 1999, month = 1, day = 9\<rparr> ''second'' ''m.txt''
           (save_minutes_sd \<lparr>year = 1999, month = 1, day = 9\<rparr> ''first run'' ''m.txt''
              empty_world)) ''m.txt-1999-01-09'' =
     Some ''second''"
    unfolding t' by simp
  from valid shape y m d t t' f g show ?thesis by blast
qed

subsection \<open>The pipelines, stage by stage\<close>

lemma translated_block_trace:
  "trace (translated_block svc u w) =
     trace w @
     [Preprocessing u,
      Print [PStr ''Preprocessed Text:'', PList (token_lemmas svc u)],
      KeywordExtraction (token_lemmas svc u) 5,
      Print [PStr ''Keywords:'', PList (extract_keywords (token_lemmas svc u) 5)],
      Summarization u 3,
      Print [PStr ''Summary:'', PStr (generate_summary svc u 3)],
      WebSearch (''https://www.google.com/search?q='' @ u @ ''&tbm=nws''),
      Print [PStr ''News Articles:'',
             PList (news svc (''https://www.google.com/search?q='' @ u @ ''&tbm=nws''))],
      FileWrite (''meeting_minutes.txt'' @ ''-'' @ get_timestamp (now svc))
                (write_segments 0 [u] []),
      Print [PStr ''Meeting minutes saved to file.'']]"
  by (simp add: translated_block_def preprocess_text_def search_web_def save_minutes_def
      emit_def Let_def)

lemma translated_block_files:
  "files (translated_block svc u w) =
     (files w)(''meeting_minutes.txt'' @ ''-'' @ get_timestamp (now svc) \<mapsto>
               write_segments 0 [u] [])"
  by (simp add: translated_block_def preprocess_text_def search_web_def save_minutes_def
      emit_def Let_def)

lemma recognized_block_trace:
  "trace (recognized_block svc t w) =
     trace w @
     [Translation ''auto'' ''en'' t,
      Print [PStr ''Translated Text:'', shown_opt (translate svc ''auto'' ''en'' t)]] @
     (case translate svc ''auto'' ''en'' t of
        None \<Rightarrow> [Print [PStr ''Translation failed.'']]
      | Some u \<Rightarrow>
          if u = [] then [Print [PStr ''Translation failed.'']]
          else drop (length (trace w)) (trace (translated_block svc u w)))"
  by (simp add: recognized_block_def translate_text_def emit_def Let_def
      translated_block_trace split: option.split)

lemma recognized_block_files:
  "files (recognized_block svc t w) =
     (case translate svc ''auto'' ''en'' t of
        None \<Rightarrow> files w
      | Some u \<Rightarrow> if u = [] then files w else files (translated_block svc u w))"
  by (simp add: recognized_block_def translate_text_def emit_def Let_def
      translated_block_files split: option.split)


lemma translated_block_sd_trace:
  "trace (translated_block_sd svc r u w) =
     trace w @
     [StWrite [PStr ''Translated Text:'', PStr u],
      Preprocessing u,
      StWrite [PStr ''Preprocessed Text:'', PList (token_lemmas svc u)],
      KeywordExtraction (token_lemmas svc u) 5,
      StWrite [PStr ''Keywords:'', PList (extract_keywords (token_lemmas svc u) 5)],
      Summarization u 3,
      StWrite [PStr ''Summary:'', PStr (generate_summary svc u 3)],
      WebSearch (''https://www.google.com/search?q='' @ u @ ''&tbm=nws''),
      StWrite [PStr ''News Articles:'',
               PList (news svc (''https://www.google.com/search?q='' @ u @ ''&tbm=nws''))],
      FileWrite (''meeting_minutes.txt'' @ ''-'' @ get_timestamp (now svc)) r,
      StWrite [PStr ''Meeting minutes with speaker labels saved to file.'']]"
  by (simp add: translated_block_sd_def preprocess_text_def search_web_def save_minutes_sd_def
      emit_def Let_def)

lemma translated_block_sd_files:
  "files (translated_block_sd svc r u w) =
     (files w)(''meeting_minutes.txt'' @ ''-'' @ get_timestamp (now svc) \<mapsto> r)"
  by (simp add: translated_block_sd_def preprocess_text_def search_web_def save_minutes_sd_def
      emit_def Let_def)

lemma recognized_block_sd_trace:
  "trace (recognized_block_sd svc r w) =
     trace w @
     [StWrite [PStr ''Recognized Text with Speaker Labels:''], StWrite [PStr r],
      Translation ''hi-EN'' ''en'' r] @
     (case translate svc ''hi-EN'' ''en'' r of
        None \<Rightarrow> []
      | Some u \<Rightarrow>
          if u = [] then [] else drop (length (trace w)) (trace (translated_block_sd svc r u w)))"
  by (simp add: recognized_block_sd_def translate_text_sd_def emit_def Let_def
      translated_block_sd_trace split: option.split)

lemma recognized_block_sd_files:
  "files (recognized_block_sd svc r w) =
     (case translate svc ''hi-EN'' ''en'' r of
        None \<Rightarrow> files w
      | Some u \<Rightarrow> if u = [] then files w else files (translated_block_sd svc r u w))"
  by (simp add: recognized_block_sd_def translate_text_sd_def emit_def Let_def
      translated_block_sd_files split: option.split)

lemma try_and_return_supported:
  assumes "l = ''en-IN'' \<or> l = ''hi-IN''"
  shows "try_and_return svc a l w =
     (case recognize_google svc a l of
        Recognized t \<Rightarrow> (Inr (Some t), emit (Recognition a l) w)
      | UnknownValue \<Rightarrow>
          (Inr None, emit (Print [PStr ''Unable to recognize speech'']) (emit (Recognition a l) w))
      | RequestFailed \<Rightarrow> (Inl RequestError, emit (Recognition a l) w))"
  using assms
  by (auto simp: try_and_return_def try_body_def assign_recognize_google_def return_local_def
      Let_def split: sr_outcome.split)

lemma try_and_return_or_IN:
  "try_and_return svc a ''or-IN'' w =
     (Inl UnboundLocalError, emit (Print [PStr ''Listening for Odia speech...'']) w)"
  by (simp add: try_and_return_def try_body_def return_local_def)

lemma try_and_return_unsupported:
  assumes "l \<noteq> ''en-IN''" "l \<noteq> ''hi-IN''" "l \<noteq> ''or-IN''"
  shows "try_and_return svc a l w = (Inr None, emit (Print [PStr ''Language not supported'']) w)"
  using assms by (simp add: try_and_return_def try_body_def return_local_def)

lemma try_and_return_world:
  "files (snd (try_and_return svc a l w)) = files w \<and>
   (\<exists>es. trace (snd (try_and_return svc a l w)) = trace w @ es \<and>
         filter after_recognition es = [] \<and> filter after_translation es = [] \<and>
         translation_sources es = [])"
proof -
  consider "l = ''en-IN'' \<or> l = ''hi-IN''" | "l = ''or-IN''"
    | "l \<noteq> ''en-IN''" "l \<noteq> ''hi-IN''" "l \<noteq> ''or-IN''"
    by blast
  then show ?thesis
  proof cases
    case 1
    show ?thesis
      unfolding try_and_return_supported [OF 1]
      by (cases "recognize_google svc a l") (simp_all add: emit_def translation_sources_def)
  next
    case 2
    show ?thesis
      unfolding 2 try_and_return_or_IN by (simp add: emit_def translation_sources_def)
  next
    case 3
    show ?thesis
      unfolding try_and_return_unsupported [OF 3] by (simp add: emit_def translation_sources_def)
  qed
qed

lemma main_flow_in_after:
  assumes "recognize_speech_from_file svc a l w = (Inr rt, w1)"
  shows "main_flow_in svc a l w =
     (None,
      case rt of
        None \<Rightarrow> emit (Print [PStr ''No speech recognized.''])
                  (emit (Print [PStr ''Recognized Text:'', PNone]) w1)
      | Some t \<Rightarrow>
          if t = [] then emit (Print [PStr ''No speech recognized.''])
                           (emit (Print [PStr ''Recognized Text:'', PStr t]) w1)
          else recognized_block svc t (emit (Print [PStr ''Recognized Text:'', PStr t]) w1))"
  by (cases rt) (simp_all add: main_flow_in_def assms Let_def)

lemma recognized_world:
  assumes "recognize_speech_from_file svc a l w = (r, w1)"
  shows "files w1 = files w \<and>
   (\<exists>es. trace w1 = trace w @ es \<and>
         filter after_recognition es = [] \<and> filter after_translation es = [] \<and>
         translation_sources es = [])"
  using try_and_return_world [of svc a l w] assms
  by (simp add: recognize_speech_from_file_def)

lemma main_flow_stops_without_speech:
  assumes rec: "recognize_speech_from_file svc a l w = (Inr rt, w1)" and no: "\<not> truthy rt"
  shows "filter after_recognition (trace (snd (main_flow_in svc a l w))) =
           filter after_recognition (trace w) \<and>
         files (snd (main_flow_in svc a l w)) = files w"
proof -
  from recognized_world [OF rec] obtain es where
    w1: "files w1 = files w" "trace w1 = trace w @ es" "filter after_recognition es = []"
    by blast
  from no show ?thesis
    unfolding main_flow_in_after [OF rec]
    by (cases rt) (simp_all add: emit_def w1)
qed

lemma main_flow_stops_without_translation:
  assumes rec: "recognize_speech_from_file svc a l w = (Inr (Some t), w1)" and t: "t \<noteq> []"
    and no: "\<not> truthy (translate svc ''auto'' ''en'' t)"
  shows "filter after_translation (trace (snd (main_flow_in svc a l w))) =
           filter after_translation (trace w) \<and>
         files (snd (main_flow_in svc a l w)) = files w"
proof -
  from recognized_world [OF rec] obtain es where
    w1: "files w1 = files w" "trace w1 = trace w @ es" "filter after_translation es = []"
    by blast
  from no t show ?thesis
    unfolding main_flow_in_after [OF rec]
    by (cases "translate svc ''auto'' ''en'' t")
       (simp_all add: emit_def w1 recognized_block_trace recognized_block_files)
qed

lemma main_flow_runs_every_stage:
  assumes rec: "recognize_speech_from_file svc a l w = (Inr (Some t), w1)" and t: "t \<noteq> []"
    and tr: "translate svc ''auto'' ''en'' t = Some u" and u: "u \<noteq> []"
  shows "filter after_translation (trace (snd (main_flow_in svc a l w))) =
           filter after_translation (trace w) @
           [Preprocessing u, KeywordExtraction (token_lemmas svc u) 5, Summarization u 3,
            WebSearch (''https://www.google.com/search?q='' @ u @ ''&tbm=nws''),
            FileWrite (''meeting_minutes.txt'' @ ''-'' @ get_timestamp (now svc))
                      (write_segments 0 [u] [])] \<and>
         files (snd (main_flow_in svc a l w)) =
           (files w)(''meeting_minutes.txt'' @ ''-'' @ get_timestamp (now svc) \<mapsto>
                     write_segments 0 [u] [])"
proof -
  from recognized_world [OF rec] obtain es where
    w1: "files w1 = files w" "trace w1 = trace w @ es" "filter after_translation es = []"
    by blast
  from t u show ?thesis
    unfolding main_flow_in_after [OF rec]
    by (simp add: emit_def w1 recognized_block_trace recognized_block_files tr
        translated_block_trace translated_block_files)
qed


lemma streamlit_stops_without_segments:
  assumes "fst (recognize_speech_from_file_sd svc f ''en-IN'' w) = []"
  shows "filter after_recognition (trace (streamlit_flow svc (Some f) w)) =
           filter after_recognition (trace w) \<and>
         files (streamlit_flow svc (Some f) w) = files w"
  using assms
  by (simp add: streamlit_flow_def recognize_speech_from_file_sd_def emit_def Let_def)

lemma streamlit_stops_without_translation:
  assumes "fst (recognize_speech_from_file_sd svc f ''en-IN'' w) = r" and "r \<noteq> []"
    and "\<not> truthy (translate svc ''hi-EN'' ''en'' r)"
  shows "filter after_translation (trace (streamlit_flow svc (Some f) w)) =
           filter after_translation (trace w) \<and>
         files (streamlit_flow svc (Some f) w) = files w"
  using assms
  by (cases "translate svc ''hi-EN'' ''en'' r")
     (auto simp: streamlit_flow_def recognize_speech_from_file_sd_def emit_def Let_def
       recognized_block_sd_trace recognized_block_sd_files)

lemma streamlit_runs_every_stage:
  assumes "fst (recognize_speech_from_file_sd svc f ''en-IN'' w) = r" and "r \<noteq> []"
    and "translate svc ''hi-EN'' ''en'' r = Some u" and "u \<noteq> []"
  shows "filter after_translation (trace (streamlit_flow svc (Some f) w)) =
           filter after_translation (trace w) @
           [Preprocessing u, KeywordExtraction (token_lemmas svc u) 5, Summarization u 3,
            WebSearch (''https://www.google.com/search?q='' @ u @ ''&tbm=nws''),
            FileWrite (''meeting_minutes.txt'' @ ''-'' @ get_timestamp (now svc)) r] \<and>
         files (streamlit_flow svc (Some f) w) =
           (files w)(''meeting_minutes.txt'' @ ''-'' @ get_timestamp (now svc) \<mapsto> r)"
  using assms
  by (auto simp: streamlit_flow_def recognize_speech_from_file_sd_def emit_def Let_def
       recognized_block_sd_trace recognized_block_sd_files translated_block_sd_trace
       translated_block_sd_files)

lemma main_flow_translation_sources:
  "translation_sources (trace (snd (main_flow_in svc a l w))) =
     translation_sources (trace w) @
     (case fst (recognize_speech_from_file svc a l w) of
        Inr (Some t) \<Rightarrow> if t = [] then [] else [''auto'']
      | _ \<Rightarrow> [])"
proof (cases "recognize_speech_from_file svc a l w")
  case (Pair r w1)
  from recognized_world [OF Pair] obtain es where
    w1: "trace w1 = trace w @ es" "translation_sources es = []"
    by blast
  have app: "\<And>xs ys. translation_sources (xs @ ys) = translation_sources xs @ translation_sources ys"
    by (simp add: translation_sources_def)
  show ?thesis
  proof (cases r)
    case (Inl e)
    with Pair w1 show ?thesis by (simp add: main_flow_in_def app)
  next
    case (Inr rt)
    have rec: "recognize_speech_from_file svc a l w = (Inr rt, w1)" using Pair Inr by simp
    show ?thesis
    proof (cases rt)
      case None
      then show ?thesis
        unfolding main_flow_in_after [OF rec] rec
        by (simp add: emit_def w1 app) (simp add: translation_sources_def)
    next
      case (Some t)
      then show ?thesis
        unfolding main_flow_in_after [OF rec] rec
        by (cases "translate svc ''auto'' ''en'' t")
           (simp_all add: emit_def w1 app recognized_block_trace translated_block_trace,
            simp_all add: translation_sources_def)
    qed
  qed
qed

lemma streamlit_translation_sources:
  "translation_sources (trace (streamlit_flow svc uploaded_file w)) =
     translation_sources (trace w) @
     (case uploaded_file of
        None \<Rightarrow> []
      | Some f \<Rightarrow>
          if fst (recognize_speech_from_file_sd svc f ''en-IN'' w) = [] then [] else [''hi-EN''])"
proof -
  have app: "\<And>xs ys. translation_sources (xs @ ys) = translation_sources xs @ translation_sources ys"
    by (simp add: translation_sources_def)
  show ?thesis
  proof (cases uploaded_file)
    case None
    then show ?thesis
      by (simp add: streamlit_flow_def emit_def app) (simp add: translation_sources_def)
  next
    case (Some f)
    show ?thesis
      unfolding Some
      by (cases "translate svc ''hi-EN'' ''en'' (fst (recognize_speech_from_file_sd svc f ''en-IN'' w))")
         (simp_all add: streamlit_flow_def recognize_speech_from_file_sd_def emit_def Let_def
           recognized_block_sd_trace translated_block_sd_trace app,
          simp_all add: translation_sources_def)
  qed
qed

subsection \<open>Which results stop a run\<close>

text \<open>
  C2 (short-circuiting), as the code has it. In both pipelines a \<^verbatim>\<open>None\<close> or empty result of
  recognition prevents every later stage and any file write, and a \<^verbatim>\<open>None\<close> or empty result
  of translation prevents preprocessing, keyword extraction, summarization, web search and
  the file write. The results of keyword extraction, summarization and web search are not
  tested: once translation has given a non-empty text, all of these stages run, in this
  order, and the minutes file is written, whatever they return.
\<close>

theorem short_circuit_after_recognition_and_translation:
  "(recognize_speech_from_file svc a l w = (Inr rt, w1) \<and> \<not> truthy rt \<longrightarrow>
      filter after_recognition (trace (snd (main_flow_in svc a l w))) =
        filter after_recognition (trace w) \<and>
      files (snd (main_flow_in svc a l w)) = files w) \<and>
   (recognize_speech_from_file svc a l w = (Inr (Some t), w1) \<and> t \<noteq> [] \<and>
    \<not> truthy (translate svc ''auto'' ''en'' t) \<longrightarrow>
      filter after_translation (trace (snd (main_flow_in svc a l w))) =
        filter after_translation (trace w) \<and>
      files (snd (main_flow_in svc a l w)) = files w) \<and>
   (recognize_speech_from_file svc a l w = (Inr (Some t), w1) \<and> t \<noteq> [] \<and>
    translate svc ''auto'' ''en'' t = Some u \<and> u \<noteq> [] \<longrightarrow>
      filter after_translation (trace (snd (main_flow_in svc a l w))) =
        filter after_translation (trace w) @
        [Preprocessing u, KeywordExtraction (token_lemmas svc u) 5, Summarization u 3,
         WebSearch (''https://www.google.com/search?q='' @ u @ ''&tbm=nws''),
         FileWrite (''meeting_minutes.txt'' @ ''-'' @ get_timestamp (now svc))
                   (write_segments 0 [u] [])] \<and>
      files (snd (main_flow_in svc a l w)) =
        (files w)(''meeting_minutes.txt'' @ ''-'' @ get_timestamp (now svc) \<mapsto>
                  write_segments 0 [u] [])) \<and>
   (fst (recognize_speech_from_file_sd svc f ''en-IN'' w) = [] \<longrightarrow>
      filter after_recognition (trace (streamlit_flow svc (Some f) w)) =
        filter after_recognition (trace w) \<and>
      files (streamlit_flow svc (Some f) w) = files w) \<and>
   (fst (recognize_speech_from_file_sd svc f ''en-IN'' w) = r \<and> r \<noteq> [] \<and>
    \<not> truthy (translate svc ''hi-EN'' ''en'' r) \<longrightarrow>
      filter after_translation (trace (streamlit_flow svc (Some f) w)) =
        filter after_translation (trace w) \<and>
      files (streamlit_flow svc (Some f) w) = files w) \<and>
   (fst (recognize_speech_from_file_sd svc f ''en-IN'' w) = r \<and> r \<noteq> [] \<and>
    translate svc ''hi-EN'' ''en'' r = Some v \<and> v \<noteq> [] \<longrightarrow>
      filter after_translation (trace (streamlit_flow svc (Some f) w)) =
        filter after_translation (trace w) @
        [Preprocessing v, KeywordExtraction (token_lemmas svc v) 5, Summarization v 3,
         WebSearch (''https://www.google.com/search?q='' @ v @ ''&tbm=nws''),
         FileWrite (''meeting_minutes.txt'' @ ''-'' @ get_timestamp (now svc)) r] \<and>
      files (streamlit_flow svc (Some f) w) =
        (files w)(''meeting_minutes.txt'' @ ''-'' @ get_timestamp (now svc) \<mapsto> r))"
  using main_flow_stops_without_speech [of svc a l w rt w1]
    main_flow_stops_without_translation [of svc a l w t w1]
    main_flow_runs_every_stage [of svc a l w t w1 u]
    streamlit_stops_without_segments [of svc f w]
    streamlit_stops_without_translation [of svc f w r]
    streamlit_runs_every_stage [of svc f w r v]
  by blast

theorem short_circuit_after_recognition_and_translation_witness:
  "(recognize_speech_from_file sample_services ''a.wav'' ''ta-IN'' empty_world =
      (Inr None, emit (Print [PStr ''Language not supported'']) empty_world) \<and>
    \<not> truthy None \<and>
    files (snd (main_flow_in sample_services ''a.wav'' ''ta-IN'' empty_world)) = files empty_world) \<and>
   (recognize_speech_from_file untranslated_services ''a.wav'' ''en-IN'' empty_world =
      (Inr (Some ''namaste duniya''), emit (Recognition ''a.wav'' ''en-IN'') empty_world) \<and>
    ''namaste duniya'' \<noteq> [] \<and>
    \<not> truthy (translate untranslated_services ''auto'' ''en'' ''namaste duniya'') \<and>
    files (snd (main_flow_in untranslated_services ''a.wav'' ''en-IN'' empty_world)) =
      files empty_world) \<and>
   (recognize_speech_from_file stop_word_services ''a.wav'' ''en-IN'' empty_world =
      (Inr (Some ''the''), emit (Recognition ''a.wav'' ''en-IN'') empty_world) \<and>
    ''the'' \<noteq> [] \<and> translate stop_word_services ''auto'' ''en'' ''the'' = Some ''the'' \<and>
    files (snd (main_flow_in stop_word_services ''a.wav'' ''en-IN'' empty_world)) =
      (files empty_world)(''meeting_minutes.txt'' @ ''-'' @ get_timestamp (now stop_word_services) \<mapsto>
                          write_segments 0 [''the''] [])) \<and>
   (fst (recognize_speech_from_file_sd stop_word_services ''a.wav'' ''en-IN'' empty_world) = [] \<and>
    files (streamlit_flow stop_word_services (Some ''a.wav'') empty_world) = files empty_world) \<and>
   (fst (recognize_speech_from_file_sd untranslated_services ''a.wav'' ''en-IN'' empty_world) \<noteq> [] \<and>
    \<not> truthy (translate untranslated_services ''hi-EN'' ''en''
         (fst (recognize_speech_from_file_sd untranslated_services ''a.wav'' ''en-IN'' empty_world))) \<and>
    files (streamlit_flow untranslated_services (Some ''a.wav'') empty_world) = files empty_world) \<and>
   (fst (recognize_speech_from_file_sd sample_services ''a.wav'' ''en-IN'' empty_world) \<noteq> [] \<and>
    translate sample_services ''hi-EN'' ''en''
       (fst (recognize_speech_from_file_sd sample_services ''a.wav'' ''en-IN'' empty_world)) =
      Some ''Hello world. Good day. Bye now. See you.'' \<and>
    files (streamlit_flow sample_services (Some ''a.wav'') empty_world) =
      (files empty_world)(''meeting_minutes.txt'' @ ''-'' @ get_timestamp (now sample_services) \<mapsto>
         fst (recognize_speech_from_file_sd sample_services ''a.wav'' ''en-IN'' empty_world)))"
proof -
  have r1: "recognize_speech_from_file sample_services ''a.wav'' ''ta-IN'' empty_world =
      (Inr None, emit (Print [PStr ''Language not supported'']) empty_world)"
    by (simp add: recognize_speech_from_file_def try_and_return_unsupported)
  have r2: "recognize_speech_from_file untranslated_services ''a.wav'' ''en-IN'' empty_world =
      (Inr (Some ''namaste duniya''), emit (Recognition ''a.wav'' ''en-IN'') empty_world)"
    by (simp add: recognize_speech_from_file_def try_and_return_supported
        untranslated_services_def sample_services_def)
  have t2: "\<not> truthy (translate untranslated_services ''auto'' ''en'' ''namaste duniya'')"
    by (simp add: untranslated_services_def)
  have r3: "recognize_speech_from_file stop_word_services ''a.wav'' ''en-IN'' empty_world =
      (Inr (Some ''the''), emit (Recognition ''a.wav'' ''en-IN'') empty_world)"
    by (simp add: recognize_speech_from_file_def try_and_return_supported stop_word_services_def)
  have t3: "translate stop_word_services ''auto'' ''en'' ''the'' = Some ''the''"
    by (simp add: stop_word_services_def)
  have r4: "fst (recognize_speech_from_file_sd stop_word_services ''a.wav'' ''en-IN'' empty_world) = []"
    by (simp add: recognize_speech_from_file_sd_def stop_word_services_def)
  have r5: "fst (recognize_speech_from_file_sd untranslated_services ''a.wav'' ''en-IN'' empty_world) \<noteq> []"
    by (simp add: recognize_speech_from_file_sd_def untranslated_services_def
        sample_services_def sample_segments_def speaker_label_def newline_def)
  have t5: "\<not> truthy (translate untranslated_services ''hi-EN'' ''en''
         (fst (recognize_speech_from_file_sd untranslated_services ''a.wav'' ''en-IN'' empty_world)))"
    by (simp add: untranslated_services_def)
  have r6: "fst (recognize_speech_from_file_sd sample_services ''a.wav'' ''en-IN'' empty_world) \<noteq> []"
    by (simp add: recognize_speech_from_file_sd_def sample_services_def sample_segments_def
        speaker_label_def newline_def)
  have t6: "translate sample_services ''hi-EN'' ''en''
       (fst (recognize_speech_from_file_sd sample_services ''a.wav'' ''en-IN'' empty_world)) =
      Some ''Hello world. Good day. Bye now. See you.''"
    by (simp add: sample_services_def)
  have ne: "''Hello world. Good day. Bye now. See you.'' \<noteq> []" by simp
  have p1: "files (snd (main_flow_in sample_services ''a.wav'' ''ta-IN'' empty_world)) =
      files empty_world"
    using r1 short_circuit_after_recognition_and_translation
        [of sample_services "''a.wav''" "''ta-IN''" empty_world None
            "emit (Print [PStr ''Language not supported'']) empty_world"]
    by simp
  have p2: "files (snd (main_flow_in untranslated_services ''a.wav'' ''en-IN'' empty_world)) =
      files empty_world"
    using r2 t2 short_circuit_after_recognition_and_translation
        [of untranslated_services "''a.wav''" "''en-IN''" empty_world _
            "emit (Recognition ''a.wav'' ''en-IN'') empty_world" "''namaste duniya''"]
    by simp
  have p3: "files (snd (main_flow_in stop_word_services ''a.wav'' ''en-IN'' empty_world)) =
      (files empty_world)(''meeting_minutes.txt'' @ ''-'' @ get_timestamp (now stop_word_services) \<mapsto>
                          write_segments 0 [''the''] [])"
    using r3 t3 short_circuit_after_recognition_and_translation
        [of stop_word_services "''a.wav''" "''en-IN''" empty_world _
            "emit (Recognition ''a.wav'' ''en-IN'') empty_world" "''the''" "''the''"]
    by simp
  have p4: "files (streamlit_flow stop_word_services (Some ''a.wav'') empty_world) = files empty_world"
    using r4 short_circuit_after_recognition_and_translation
        [of stop_word_services _ _ empty_world _ _ _ _ "''a.wav''"]
    by simp
  have p5: "files (streamlit_flow untranslated_services (Some ''a.wav'') empty_world) =
      files empty_world"
    using r5 t5 short_circuit_after_recognition_and_translation
        [of untranslated_services _ _ empty_world _ _ _ _ "''a.wav''"
            "fst (recognize_speech_from_file_sd untranslated_services ''a.wav'' ''en-IN'' empty_world)"]
    by blast
  have p6: "files (streamlit_flow sample_services (Some ''a.wav'') empty_world) =
      (files empty_world)(''meeting_minutes.txt'' @ ''-'' @ get_timestamp (now sample_services) \<mapsto>
         fst (recognize_speech_from_file_sd sample_services ''a.wav'' ''en-IN'' empty_world))"
    using r6 t6 ne short_circuit_after_recognition_and_translation
        [of sample_services _ _ empty_world _ _ _ _ "''a.wav''"
            "fst (recognize_speech_from_file_sd sample_services ''a.wav'' ''en-IN'' empty_world)"
            "''Hello world. Good day. Bye now. See you.''"]
    by blast
  have nt: "\<not> truthy None" and ne2: "''namaste duniya'' \<noteq> []" and ne3: "''the'' \<noteq> []"
    by simp_all
  from r1 nt p1 r2 ne2 t2 p2 r3 ne3 t3 p3 r4 p4 r5 t5 p5 r6 t6 p6
  show ?thesis by blast
qed

text \<open>
  C2 as stated fails: with a translation made of a stop word only, keyword extraction
  returns the empty list and the web search finds nothing, and still summarization, web
  search and the file write follow.
\<close>

theorem empty_keywords_and_news_do_not_stop:
  "extract_keywords (token_lemmas stop_word_services ''the'') 5 = [] \<and>
   news stop_word_services ''https://www.google.com/search?q=the&tbm=nws'' = [] \<and>
   filter after_translation (trace (snd (main_flow stop_word_services ''a.wav'' empty_world))) =
     [Preprocessing ''the'', KeywordExtraction [] 5, Summarization ''the'' 3,
      WebSearch ''https://www.google.com/search?q=the&tbm=nws'',
      FileWrite ''meeting_minutes.txt-2026-11-04''
        (''Segment 1:'' @ newline @ ''the'' @ newline @ newline)] \<and>
   files (snd (main_flow stop_word_services ''a.wav'' empty_world))
     ''meeting_minutes.txt-2026-11-04'' =
     Some (''Segment 1:'' @ newline @ ''the'' @ newline @ newline)"
proof -
  have k: "extract_keywords (token_lemmas stop_word_services ''the'') 5 = []"
    by (simp add: stop_word_services_def extract_keywords_def Counter_def counter_keys_def
        nlargest_def sorted_reverse_def)
  have n: "news stop_word_services ''https://www.google.com/search?q=the&tbm=nws'' = []"
    by (simp add: stop_word_services_def)
  have r: "recognize_speech_from_file stop_word_services ''a.wav'' ''en-IN'' empty_world =
      (Inr (Some ''the''), emit (Recognition ''a.wav'' ''en-IN'') empty_world)"
    by (simp add: recognize_speech_from_file_def try_and_return_supported stop_word_services_def)
  have t: "translate stop_word_services ''auto'' ''en'' ''the'' = Some ''the''"
    by (simp add: stop_word_services_def)
  have ne: "''the'' \<noteq> []" by simp
  have d: "get_timestamp (now stop_word_services) = ''2026-11-04''"
    unfolding stop_word_services_def by code_simp
  have c: "write_segments 0 [''the''] [] = ''Segment 1:'' @ newline @ ''the'' @ newline @ newline"
    by code_simp
  have l: "token_lemmas stop_word_services ''the'' = []"
    by (simp add: stop_word_services_def)
  from main_flow_runs_every_stage [OF r ne t ne]
  have "filter after_translation (trace (snd (main_flow stop_word_services ''a.wav'' empty_world))) =
     [Preprocessing ''the'', KeywordExtraction [] 5, Summarization ''the'' 3,
      WebSearch ''https://www.google.com/search?q=the&tbm=nws'',
      FileWrite ''meeting_minutes.txt-2026-11-04''
        (''Segment 1:'' @ newline @ ''the'' @ newline @ newline)]"
    and "files (snd (main_flow stop_word_services ''a.wav'' empty_world))
     ''meeting_minutes.txt-2026-11-04'' =
     Some (''Segment 1:'' @ newline @ ''the'' @ newline @ newline)"
    unfolding d c l main_flow_def by (simp_all add: empty_world_def)
  with k n show ?thesis by simp
qed

subsection \<open>Unsupported languages\<close>

text \<open>
  C8 (unsupported language code). For every language code other than \<^verbatim>\<open>en-IN\<close>, \<^verbatim>\<open>hi-IN\<close>
  and \<^verbatim>\<open>or-IN\<close>, recognition prints that the language is not supported and returns
  \<^verbatim>\<open>None\<close>, from a file and from the microphone alike, and the pipeline then performs no
  translation, keyword extraction, summarization, web search or file write: it only
  prints the recognized text and that no speech was recognized.
\<close>

theorem unsupported_language_stops_the_run:
  assumes "language \<notin> {''en-IN'', ''hi-IN'', ''or-IN''}"
  shows "recognize_speech_from_file svc audio language w =
           (Inr None, emit (Print [PStr ''Language not supported'']) w) \<and>
         recognize_speech svc language w =
           (Inr None,
            emit (Print [PStr ''Language not supported''])
              (emit (Print [PStr (''Listening for '' @ language @ '' speech...'')]) w)) \<and>
         main_flow_in svc audio language w =
           (None,
            emit (Print [PStr ''No speech recognized.''])
              (emit (Print [PStr ''Recognized Text:'', PNone])
                 (emit (Print [PStr ''Language not supported'']) w))) \<and>
         filter after_recognition (trace (snd (main_flow_in svc audio language w))) =
           filter after_recognition (trace w) \<and>
         files (snd (main_flow_in svc audio language w)) = files w"
proof -
  from assms have l: "language \<noteq> ''en-IN''" "language \<noteq> ''hi-IN''" "language \<noteq> ''or-IN''"
    by simp_all
  have rec: "recognize_speech_from_file svc audio language w =
           (Inr None, emit (Print [PStr ''Language not supported'']) w)"
    by (simp add: recognize_speech_from_file_def try_and_return_unsupported [OF l])
  have mic: "recognize_speech svc language w =
           (Inr None,
            emit (Print [PStr ''Language not supported''])
              (emit (Print [PStr (''Listening for '' @ language @ '' speech...'')]) w))"
    by (simp add: recognize_speech_def Let_def try_and_return_unsupported [OF l])
  have flow: "main_flow_in svc audio language w =
           (None,
            emit (Print [PStr ''No speech recognized.''])
              (emit (Print [PStr ''Recognized Text:'', PNone])
                 (emit (Print [PStr ''Language not supported'']) w)))"
    unfolding main_flow_in_after [OF rec] by simp
  show ?thesis
    unfolding flow rec mic by (simp add: emit_def)
qed

theorem unsupported_language_stops_the_run_witness:
  "''ta-IN'' \<notin> {''en-IN'', ''hi-IN'', ''or-IN''} \<and>
   fst (recognize_speech_from_file sample_services ''a.wav'' ''ta-IN'' empty_world) = Inr None \<and>
   trace (snd (main_flow_in sample_services ''a.wav'' ''ta-IN'' empty_world)) =
     [Print [PStr ''Language not supported''], Print [PStr ''Recognized Text:'', PNone],
      Print [PStr ''No speech recognized.'']] \<and>
   files (snd (main_flow_in sample_services ''a.wav'' ''ta-IN'' empty_world)) = Map.empty"
proof -
  have h: "''ta-IN'' \<notin> {''en-IN'', ''hi-IN'', ''or-IN''}" by simp
  show ?thesis
    using h unsupported_language_stops_the_run [OF h, of sample_services "''a.wav''" empty_world]
    by (simp add: emit_def empty_world_def)
qed

subsection \<open>The source language of translation\<close>

text \<open>
  C6 (source language of translation). The claim is that every call to the translation
  service is made with source \<^verbatim>\<open>auto\<close>, in both pipelines. \<^verbatim>\<open>translate_text\<close> of
  \<^verbatim>\<open>new full impli.py\<close> does so, once per run that recognized some text. \<^verbatim>\<open>translate_text\<close>
  of \<^verbatim>\<open>speaker detection.py\<close> passes the literal \<^verbatim>\<open>hi-EN\<close> instead, which is not
  \<^verbatim>\<open>auto\<close>, on its one call per upload with a non-empty transcript.
\<close>

theorem translation_source_per_pipeline:
  "translate_text svc t d w = (translate svc ''auto'' d t, emit (Translation ''auto'' d t) w) \<and>
   translate_text_sd svc t d w = (translate svc ''hi-EN'' d t, emit (Translation ''hi-EN'' d t) w) \<and>
   ''hi-EN'' \<noteq> ''auto'' \<and>
   translation_sources (trace (snd (main_flow_in svc a l w))) =
     translation_sources (trace w) @
     (case fst (recognize_speech_from_file svc a l w) of
        Inr (Some t) \<Rightarrow> if t = [] then [] else [''auto'']
      | _ \<Rightarrow> []) \<and>
   translation_sources (trace (streamlit_flow svc uploaded_file w)) =
     translation_sources (trace w) @
     (case uploaded_file of
        None \<Rightarrow> []
      | Some f \<Rightarrow>
          if fst (recognize_speech_from_file_sd svc f ''en-IN'' w) = [] then [] else [''hi-EN''])"
  by (simp add: translate_text_def translate_text_sd_def Let_def
      main_flow_translation_sources streamlit_translation_sources)

theorem translation_source_per_pipeline_witness:
  "translation_sources (trace (snd (main_flow_in sample_services ''a.wav'' ''en-IN'' empty_world))) =
     [''auto''] \<and>
   translation_sources (trace (streamlit_flow sample_services (Some ''a.wav'') empty_world)) =
     [''hi-EN''] \<and>
   snd (translate_text_sd sample_services ''namaste'' ''en'' empty_world) =
     emit (Translation ''hi-EN'' ''en'' ''namaste'') empty_world"
proof -
  have r: "fst (recognize_speech_from_file sample_services ''a.wav'' ''en-IN'' empty_world) =
      Inr (Some ''namaste duniya'')"
    by (simp add: recognize_speech_from_file_def try_and_return_supported sample_services_def)
  have s: "fst (recognize_speech_from_file_sd sample_services ''a.wav'' ''en-IN'' empty_world) \<noteq> []"
    by (simp add: recognize_speech_from_file_sd_def sample_services_def sample_segments_def
        speaker_label_def newline_def)
  have e: "translation_sources (trace empty_world) = []"
    by (simp add: empty_world_def translation_sources_def)
  note m = translation_source_per_pipeline
        [of sample_services "''namaste''" "''en''" empty_world "''a.wav''" "''en-IN''"
            "Some ''a.wav''"]
  from m have "translation_sources
      (trace (snd (main_flow_in sample_services ''a.wav'' ''en-IN'' empty_world))) = [''auto'']"
    by (simp add: r e)
  moreover from m s have "translation_sources
      (trace (streamlit_flow sample_services (Some ''a.wav'') empty_world)) = [''hi-EN'']"
    by (simp add: e)
  moreover from m have "snd (translate_text_sd sample_services ''namaste'' ''en'' empty_world) =
     emit (Translation ''hi-EN'' ''en'' ''namaste'') empty_world"
    by simp
  ultimately show ?thesis by blast
qed

end
